theory Spec2Isabelle
  imports
    Complex_Main
    "HOL-Library.AList"
    "HOL-Library.Char_ord"
    "HOL-Library.List_Lexorder"
    "HOL-Library.Product_Lexorder"
    "HOL-Library.Multiset"
begin

section \<open>Python values\<close>

text \<open>
  The script \<^verbatim>\<open>cdti_data_export.py\<close> works on dynamically typed values: the flattened DICOM
  header is a \<^verbatim>\<open>dict\<close> from keywords to strings, numbers, and lists of nested dicts.
  A Python \<^verbatim>\<open>str\<close> is a \<^typ>\<open>string\<close> whose characters are the code points below 256.
  A Python \<^verbatim>\<open>float\<close> is its exact rational value, or one of the three special values;
  the two zeros, equal under \<^verbatim>\<open>==\<close>, are one value here.
  A \<^verbatim>\<open>dict\<close> is an association list in insertion order, read with \<^const>\<open>map_of\<close> and
  written with \<^const>\<open>AList.update\<close>, which like Python keeps the position of a key that
  is already there.
\<close>

datatype pyfloat = Finite rat | PosInf | NegInf | NaN

datatype pyval =
    PNone
  | PStr string
  | PInt int
  | PFloat pyfloat
  | PList "pyval list"
  | PDict "(string \<times> pyval) list"

type_synonym pydict = "(string \<times> pyval) list"

datatype error = KeyError | IndexError | TypeError | ValueError | OverflowError | InvalidDicomError

text \<open>An exception ends the computation: the rest runs only on a returned value.\<close>

definition and_then :: "error + 'a \<Rightarrow> ('a \<Rightarrow> error + 'b) \<Rightarrow> error + 'b" where
  "and_then r f = (case r of Inl e \<Rightarrow> Inl e | Inr v \<Rightarrow> f v)"

subsection \<open>Subscripts and slices\<close>

definition dict_get :: "pydict \<Rightarrow> string \<Rightarrow> error + pyval" where
  "dict_get d k = (case map_of d k of Some v \<Rightarrow> Inr v | None \<Rightarrow> Inl KeyError)"

text \<open>\<^verbatim>\<open>xs[i]\<close> on a sequence of length \<open>n\<close>: a negative index counts from the end.\<close>

definition seq_index :: "'a list \<Rightarrow> int \<Rightarrow> error + 'a" where
  "seq_index xs i =
     (if 0 \<le> i \<and> i < int (length xs) then Inr (xs ! nat i)
      else if i < 0 \<and> - int (length xs) \<le> i then Inr (xs ! nat (int (length xs) + i))
      else Inl IndexError)"

text \<open>\<^verbatim>\<open>v[key]\<close> with a \<^verbatim>\<open>str\<close> key: only a dict takes one.\<close>

fun getitem_key :: "pyval \<Rightarrow> string \<Rightarrow> error + pyval" where
  "getitem_key (PDict d) k = dict_get d k"
| "getitem_key _ k = Inl TypeError"

text \<open>
  \<^verbatim>\<open>v[i]\<close> with an \<^verbatim>\<open>int\<close>: a list gives its item, a string the one-character string,
  a dict (whose keys are all strings) has no such key, anything else is not subscriptable.
\<close>

fun getitem_int :: "pyval \<Rightarrow> int \<Rightarrow> error + pyval" where
  "getitem_int (PList xs) i = seq_index xs i"
| "getitem_int (PStr s) i = and_then (seq_index s i) (\<lambda>c. Inr (PStr [c]))"
| "getitem_int (PDict d) i = Inl KeyError"
| "getitem_int _ i = Inl TypeError"

text \<open>
  \<^verbatim>\<open>v[8:]\<close> and \<^verbatim>\<open>v[:8]\<close>: strings and lists can be sliced, and a slice never fails
  on them; a number and \<^verbatim>\<open>None\<close> are not subscriptable, and a dict does not take a
  slice as a key.
\<close>

fun slice_from :: "nat \<Rightarrow> pyval \<Rightarrow> error + pyval" where
  "slice_from n (PStr s) = Inr (PStr (drop n s))"
| "slice_from n (PList xs) = Inr (PList (drop n xs))"
| "slice_from n _ = Inl TypeError"

fun slice_upto :: "nat \<Rightarrow> pyval \<Rightarrow> error + pyval" where
  "slice_upto n (PStr s) = Inr (PStr (take n s))"
| "slice_upto n (PList xs) = Inr (PList (take n xs))"
| "slice_upto n _ = Inl TypeError"

subsection \<open>The built-in \<^verbatim>\<open>float\<close>\<close>

text \<open>
  A finite double is \<open>m * 2 ^ u\<close> with \<open>|m| \<le> 2 ^ 53\<close> and \<open>-1074 \<le> u \<le> 971\<close>.
  \<open>nearest_double n d\<close> is the double nearest to the positive rational \<open>n / d\<close>, ties
  to the even significand, or \<open>None\<close> when that is beyond the largest double.
\<close>

definition pow2 :: "int \<Rightarrow> rat" where
  "pow2 k = (if 0 \<le> k then 2 ^ nat k else 1 / 2 ^ nat (- k))"

fun bit_length :: "nat \<Rightarrow> nat" where
  "bit_length n = (if n = 0 then 0 else Suc (bit_length (n div 2)))"

definition round_half_even_div :: "int \<Rightarrow> int \<Rightarrow> int" where
  "round_half_even_div n d =
     (let q = n div d; r = n mod d
      in if 2 * r < d then q
         else if d < 2 * r then q + 1
         else if even q then q else q + 1)"

definition scaled_ge :: "int \<Rightarrow> int \<Rightarrow> int \<Rightarrow> bool" where
  \<comment> \<open>\<open>2 ^ b \<le> n / d\<close>\<close>
  "scaled_ge n d b = (if 0 \<le> b then d * 2 ^ nat b \<le> n else d \<le> n * 2 ^ nat (- b))"

definition nearest_double :: "int \<Rightarrow> int \<Rightarrow> rat option" where
  "nearest_double n d =
     (let b = int (bit_length (nat n)) - int (bit_length (nat d));
          e = (if scaled_ge n d b then b else b - 1);
          u = max (e - 52) (- 1074);
          m = (if 0 \<le> u then round_half_even_div n (d * 2 ^ nat u)
               else round_half_even_div (n * 2 ^ nat (- u)) d)
      in if 1024 \<le> e \<or> (u = 971 \<and> m = 2 ^ 53) then None
         else Some (of_int m * pow2 u))"

text \<open>The value \<open>n * 10 ^ k\<close> of a decimal literal, as a double; too large a literal is \<^verbatim>\<open>inf\<close>.\<close>

definition decimal_to_double :: "bool \<Rightarrow> nat \<Rightarrow> int \<Rightarrow> pyfloat" where
  "decimal_to_double neg n k =
     (if n = 0 then Finite 0
      else case (if 0 \<le> k then nearest_double (int n * 10 ^ nat k) 1
                 else nearest_double (int n) (10 ^ nat (- k))) of
             None \<Rightarrow> (if neg then NegInf else PosInf)
           | Some q \<Rightarrow> Finite (if neg then - q else q))"

text \<open>\<^verbatim>\<open>float(i)\<close> of an \<^verbatim>\<open>int\<close>: too large an integer raises instead.\<close>

definition int_to_double :: "int \<Rightarrow> error + pyfloat" where
  "int_to_double i =
     (if i = 0 then Inr (Finite 0)
      else case nearest_double \<bar>i\<bar> 1 of
             None \<Rightarrow> Inl OverflowError
           | Some q \<Rightarrow> Inr (Finite (if i < 0 then - q else q)))"

text \<open>
  \<^verbatim>\<open>float(s)\<close> of a \<^verbatim>\<open>str\<close>: surrounding whitespace is dropped, an underscore may stand
  between two digits, then the text is a sign and \<^verbatim>\<open>inf\<close>, \<^verbatim>\<open>infinity\<close>, \<^verbatim>\<open>nan\<close> (in
  any case) or a decimal literal with an optional exponent; anything else is a ValueError.
\<close>

definition float_space :: "char \<Rightarrow> bool" where
  "float_space c = (of_char c \<in> {9, 10, 11, 12, 13, 32, 133, 160 :: nat})"

definition is_digit :: "char \<Rightarrow> bool" where
  "is_digit c = (48 \<le> (of_char c :: nat) \<and> (of_char c :: nat) \<le> 57)"

definition digit_value :: "char \<Rightarrow> nat" where
  "digit_value c = of_char c - 48"

definition nat_of_digits :: "string \<Rightarrow> nat" where
  "nat_of_digits ds = foldl (\<lambda>a c. 10 * a + digit_value c) 0 ds"

definition strip_space :: "string \<Rightarrow> string" where
  "strip_space s = rev (dropWhile float_space (rev (dropWhile float_space s)))"

fun remove_underscores :: "char \<Rightarrow> string \<Rightarrow> string option" where
  "remove_underscores prev [] = (if prev = CHR ''_'' then None else Some [])"
| "remove_underscores prev (c # cs) =
     (if c = CHR ''_'' then
        (if is_digit prev then remove_underscores c cs else None)
      else if prev = CHR ''_'' \<and> \<not> is_digit c then None
      else map_option ((#) c) (remove_underscores c cs))"

definition split_sign :: "string \<Rightarrow> bool \<times> string" where
  "split_sign s =
     (case s of
        c # cs \<Rightarrow> (if c = CHR ''-'' then (True, cs) else if c = CHR ''+'' then (False, cs) else (False, s))
      | [] \<Rightarrow> (False, s))"

definition lower :: "char \<Rightarrow> char" where
  "lower c = (if 65 \<le> (of_char c :: nat) \<and> (of_char c :: nat) \<le> 90
              then char_of (of_char c + (32 :: nat)) else c)"

definition parse_exponent :: "string \<Rightarrow> int option" where
  "parse_exponent s =
     (case s of
        [] \<Rightarrow> Some 0
      | c # cs \<Rightarrow>
          (if c = CHR ''e'' \<or> c = CHR ''E'' then
             (let (neg, ds) = split_sign cs
              in if ds \<noteq> [] \<and> list_all is_digit ds
                 then Some (if neg then - int (nat_of_digits ds) else int (nat_of_digits ds))
                 else None)
           else None))"

definition parse_decimal :: "string \<Rightarrow> (nat \<times> int) option" where
  "parse_decimal s =
     (let ip = takeWhile is_digit s; r1 = dropWhile is_digit s;
          (fp, r2) = (case r1 of
                        c # cs \<Rightarrow> (if c = CHR ''.'' then (takeWhile is_digit cs, dropWhile is_digit cs)
                                   else ([], r1))
                      | [] \<Rightarrow> ([], r1))
      in if ip = [] \<and> fp = [] then None
         else case parse_exponent r2 of
                None \<Rightarrow> None
              | Some x \<Rightarrow> Some (nat_of_digits (ip @ fp), x - int (length fp)))"

definition float_of_str :: "string \<Rightarrow> error + pyfloat" where
  "float_of_str s =
     (case remove_underscores (CHR 0x00) (strip_space s) of
        None \<Rightarrow> Inl ValueError
      | Some t \<Rightarrow>
          (let (neg, body) = split_sign t; word = map lower body
           in if word = ''inf'' \<or> word = ''infinity'' then Inr (if neg then NegInf else PosInf)
              else if word = ''nan'' then Inr NaN
              else case parse_decimal body of
                     None \<Rightarrow> Inl ValueError
                   | Some (n, k) \<Rightarrow> Inr (decimal_to_double neg n k)))"

fun py_float :: "pyval \<Rightarrow> error + pyfloat" where
  "py_float (PFloat f) = Inr f"
| "py_float (PInt i) = int_to_double i"
| "py_float (PStr s) = float_of_str s"
| "py_float _ = Inl TypeError"

subsection \<open>The built-ins \<^verbatim>\<open>round\<close> and \<^verbatim>\<open>str\<close>\<close>

text \<open>\<^verbatim>\<open>round(x)\<close> with one argument gives the nearest \<^verbatim>\<open>int\<close>, a tie going to the even one.\<close>

definition round_half_even :: "rat \<Rightarrow> int" where
  "round_half_even q =
     (let f = \<lfloor>q\<rfloor>; d = q - of_int f
      in if d < 1 / 2 then f
         else if 1 / 2 < d then f + 1
         else if even f then f else f + 1)"

fun py_round :: "pyfloat \<Rightarrow> error + int" where
  "py_round (Finite q) = Inr (round_half_even q)"
| "py_round PosInf = Inl OverflowError"
| "py_round NegInf = Inl OverflowError"
| "py_round NaN = Inl ValueError"

fun digits_of_nat :: "nat \<Rightarrow> string" where
  "digits_of_nat n =
     (if n < 10 then [''0123456789'' ! n]
      else digits_of_nat (n div 10) @ [''0123456789'' ! (n mod 10)])"

definition str_of_int :: "int \<Rightarrow> string" where
  "str_of_int i = (if i < 0 then CHR ''-'' # digits_of_nat (nat (- i)) else digits_of_nat (nat i))"

text \<open>
  \<^verbatim>\<open>str(v)\<close> never fails. On a float, a list or a dict it is Python's \<^verbatim>\<open>repr\<close>, which
  is not part of this development: the functions that call \<^verbatim>\<open>str\<close> take it as the
  parameter \<open>repr\<close>, and what is proved of them holds for every \<open>repr\<close>.
\<close>

fun py_str :: "(pyval \<Rightarrow> string) \<Rightarrow> pyval \<Rightarrow> string" where
  "py_str repr (PStr s) = s"
| "py_str repr (PInt i) = str_of_int i"
| "py_str repr PNone = ''None''"
| "py_str repr v = repr v"

text \<open>
  \<^verbatim>\<open>v + "_"\<close> and \<^verbatim>\<open>s + v\<close> with \<open>s\<close> a \<^verbatim>\<open>str\<close>: concatenation, and a TypeError
  unless \<open>v\<close> is a \<^verbatim>\<open>str\<close> too.
\<close>

fun add_str :: "pyval \<Rightarrow> string \<Rightarrow> error + string" where
  "add_str (PStr a) s = Inr (a @ s)"
| "add_str _ s = Inl TypeError"

fun str_add :: "string \<Rightarrow> pyval \<Rightarrow> error + string" where
  "str_add s (PStr b) = Inr (s @ b)"
| "str_add s _ = Inl TypeError"

definition replace_char :: "char \<Rightarrow> char \<Rightarrow> string \<Rightarrow> string" where
  "replace_char old new s = map (\<lambda>c. if c = old then new else c) s"


section \<open>Field extractors\<close>

text \<open>
  Each extractor takes the flattened header, the layout tag (\<open>2\<close> for the modern
  multi-frame header, \<open>1\<close> for the legacy one) and the frame index. A Python function
  that reaches its end without \<^verbatim>\<open>return\<close> returns \<^verbatim>\<open>None\<close>.
\<close>

definition get_nominal_interval :: "pydict \<Rightarrow> int \<Rightarrow> int \<Rightarrow> error + pyval" where
  "get_nominal_interval c_dicom_header dicom_type frame_idx =
     (if dicom_type = 2 then
        and_then (dict_get c_dicom_header ''PerFrameFunctionalGroupsSequence'') (\<lambda>frames.
        and_then (getitem_int frames frame_idx) (\<lambda>frame.
        and_then (getitem_key frame ''CardiacSynchronizationSequence'') (\<lambda>sync.
        and_then (getitem_int sync 0) (\<lambda>item.
        and_then (getitem_key item ''RRIntervalTimeNominal'') (\<lambda>v.
        and_then (py_float v) (\<lambda>val. Inr (PFloat val)))))))
      else if dicom_type = 1 then
        and_then (dict_get c_dicom_header ''NominalInterval'') (\<lambda>v.
        and_then (py_float v) (\<lambda>val. Inr (PFloat val)))
      else Inr PNone)"

definition get_acquisition_time :: "pydict \<Rightarrow> int \<Rightarrow> int \<Rightarrow> error + pyval" where
  "get_acquisition_time c_dicom_header dicom_type frame_idx =
     (if dicom_type = 2 then
        and_then (dict_get c_dicom_header ''PerFrameFunctionalGroupsSequence'') (\<lambda>frames.
        and_then (getitem_int frames frame_idx) (\<lambda>frame.
        and_then (getitem_key frame ''FrameContentSequence'') (\<lambda>content.
        and_then (getitem_int content 0) (\<lambda>item.
        and_then (getitem_key item ''FrameAcquisitionDateTime'') (\<lambda>v.
        slice_from 8 v)))))
      else if dicom_type = 1 then dict_get c_dicom_header ''AcquisitionTime''
      else Inr PNone)"

definition get_acquisition_date :: "pydict \<Rightarrow> int \<Rightarrow> int \<Rightarrow> error + pyval" where
  "get_acquisition_date c_dicom_header dicom_type frame_idx =
     (if dicom_type = 2 then
        and_then (dict_get c_dicom_header ''PerFrameFunctionalGroupsSequence'') (\<lambda>frames.
        and_then (getitem_int frames frame_idx) (\<lambda>frame.
        and_then (getitem_key frame ''FrameContentSequence'') (\<lambda>content.
        and_then (getitem_int content 0) (\<lambda>item.
        and_then (getitem_key item ''FrameAcquisitionDateTime'') (\<lambda>v.
        slice_upto 8 v)))))
      else if dicom_type = 1 then dict_get c_dicom_header ''AcquisitionDate''
      else Inr PNone)"

text \<open>
  The suffix expression is evaluated from left to right: each header field is read when
  its turn comes, and the first failure is the one raised.
\<close>

definition get_nii_file_suffix ::
  "(pyval \<Rightarrow> string) \<Rightarrow> pydict \<Rightarrow> int \<Rightarrow> int \<Rightarrow> error + pyval" where
  "get_nii_file_suffix repr c_dicom_header dicom_type frame_idx =
     (if dicom_type = 2 then
        and_then (dict_get c_dicom_header ''SeriesDescription'') (\<lambda>description.
        and_then (add_str description ''_'') (\<lambda>s1.
        and_then (dict_get c_dicom_header ''SeriesDate'') (\<lambda>date.
        and_then (str_add s1 date) (\<lambda>s2.
        and_then (dict_get c_dicom_header ''StudyTime'') (\<lambda>time.
        and_then (py_float time) (\<lambda>seconds.
        and_then (py_round seconds) (\<lambda>rounded.
        and_then (dict_get c_dicom_header ''SeriesNumber'') (\<lambda>number.
        Inr (PStr (replace_char CHR '' '' CHR ''_''
               (s2 @ str_of_int rounded @ ''_'' @ py_str repr number)))))))))))
      else if dicom_type = 1 then
        and_then (dict_get c_dicom_header ''SeriesDescription'') (\<lambda>description.
        and_then (add_str description ''_'') (\<lambda>s1.
        and_then (dict_get c_dicom_header ''SeriesDate'') (\<lambda>date.
        and_then (str_add s1 date) (\<lambda>s2.
        and_then (dict_get c_dicom_header ''StudyTime'') (\<lambda>time.
        and_then (py_float time) (\<lambda>seconds.
        and_then (py_round seconds) (\<lambda>rounded.
        and_then (dict_get c_dicom_header ''SeriesNumber'') (\<lambda>number.
        Inr (PStr (replace_char CHR '' '' CHR ''_''
               (s2 @ str_of_int rounded @ ''_'' @ py_str repr number)))))))))))
      else Inr PNone)"

section \<open>Datasets and the header flattener\<close>

text \<open>
  A pydicom dataset is the list of its data elements in tag order. An element has its
  tag, its value representation and the keyword the DICOM dictionary gives the tag (the
  empty string for a private or unknown tag). A sequence element holds its items, each a
  dataset, and its value representation is \<^verbatim>\<open>SQ\<close>; any other element holds a plain
  value. A plain element that declares \<^verbatim>\<open>SQ\<close> is a malformed sequence.
\<close>

type_synonym tag = "nat \<times> nat"

datatype data_element =
    Plain tag string string pyval
  | SeqElem tag string "data_element list list"

type_synonym dataset = "data_element list"

fun keyword :: "data_element \<Rightarrow> string" where
  "keyword (Plain t vr kw v) = kw"
| "keyword (SeqElem t kw items) = kw"

text \<open>
  \<open>dictify_loop\<close> is the \<^verbatim>\<open>for elem in ds\<close> loop with the dict built so far,
  \<open>dictify_items\<close> the list comprehension over the items of a sequence element, and
  \<open>private_value\<close> is \<^verbatim>\<open>ds[tag].value\<close> guarded by \<^verbatim>\<open>tag in ds\<close>. The value of a
  sequence element, which only the two private lookups can store, is written as the
  list of its flattened items.
\<close>

fun dictify_loop :: "data_element list \<Rightarrow> pydict \<Rightarrow> error + pydict"
  and dictify_items :: "data_element list list \<Rightarrow> error + pyval list"
  and private_value :: "tag \<Rightarrow> data_element list \<Rightarrow> error + pyval option"
  and dictify :: "data_element list \<Rightarrow> error + pydict"
where
  "dictify_loop [] output = Inr output"
| "dictify_loop (Plain t vr kw v # elems) output =
     (if vr \<noteq> ''SQ'' then dictify_loop elems (AList.update kw v output)
      else Inl TypeError)"
| "dictify_loop (SeqElem t kw items # elems) output =
     (case dictify_items items of
        Inl e \<Rightarrow> Inl e
      | Inr ds \<Rightarrow> dictify_loop elems (AList.update kw (PList ds) output))"
| "dictify_items [] = Inr []"
| "dictify_items (item # items) =
     (case dictify item of
        Inl e \<Rightarrow> Inl e
      | Inr d \<Rightarrow> (case dictify_items items of
                    Inl e \<Rightarrow> Inl e
                  | Inr ds \<Rightarrow> Inr (PDict d # ds)))"
| "private_value t [] = Inr None"
| "private_value t (Plain t' vr kw v # elems) =
     (if t' = t then Inr (Some v) else private_value t elems)"
| "private_value t (SeqElem t' kw items # elems) =
     (if t' = t then
        (case dictify_items items of Inl e \<Rightarrow> Inl e | Inr ds \<Rightarrow> Inr (Some (PList ds)))
      else private_value t elems)"
| "dictify ds =
     (case dictify_loop ds [] of
        Inl e \<Rightarrow> Inl e
      | Inr output \<Rightarrow>
          (case private_value (0x0019, 0x100C) ds of
             Inl e \<Rightarrow> Inl e
           | Inr b_value \<Rightarrow>
               (case private_value (0x0019, 0x100E) ds of
                  Inl e \<Rightarrow> Inl e
                | Inr direction \<Rightarrow>
                    (let output = (case b_value of None \<Rightarrow> output
                                   | Some v \<Rightarrow> AList.update ''DiffusionBValue'' v output)
                     in Inr (case direction of None \<Rightarrow> output
                             | Some v \<Rightarrow> AList.update ''DiffusionGradientDirection'' v output)))))"

section \<open>The conversion run\<close>

text \<open>
  An entry of the input directory has its base name and what reading it gives: the
  dataset, or the exception that \<^verbatim>\<open>open\<close> or \<^verbatim>\<open>dcmread\<close> raises.
\<close>

record dicom_file =
  base_name :: string
  contents :: "error + dataset"

definition dcmread :: "dicom_file \<Rightarrow> error + dataset" where
  "dcmread f = contents f"

text \<open>
  \<^verbatim>\<open>glob.glob(os.path.join(dicom_path, "*.dcm"))\<close> keeps the entries whose name ends in
  \<^verbatim>\<open>.dcm\<close> and does not start with a dot. The paths share the directory prefix, so
  \<^verbatim>\<open>dicom_files.sort()\<close> orders them by base name.
\<close>

definition glob_dcm :: "string \<Rightarrow> bool" where
  "glob_dcm name =
     (4 \<le> length name \<and> drop (length name - 4) name = ''.dcm'' \<and> hd name \<noteq> CHR ''.'')"

definition list_dicom_files :: "dicom_file list \<Rightarrow> dicom_file list" where
  "list_dicom_files listing = sort_key base_name (filter (\<lambda>f. glob_dcm (base_name f)) listing)"

text \<open>
  \<^verbatim>\<open>"PerFrameFunctionalGroupsSequence" in ds\<close> and \<^verbatim>\<open>ds.PerFrameFunctionalGroupsSequence\<close>
  find the element by the tag the dictionary gives the keyword, that is the element that
  carries this keyword.
\<close>

definition keyword_in :: "string \<Rightarrow> dataset \<Rightarrow> bool" where
  "keyword_in kw ds = list_ex (\<lambda>e. keyword e = kw) ds"

fun py_len :: "pyval \<Rightarrow> error + nat" where
  "py_len (PStr s) = Inr (length s)"
| "py_len (PList xs) = Inr (length xs)"
| "py_len (PDict d) = Inr (length d)"
| "py_len _ = Inl TypeError"

fun len_of_element :: "data_element \<Rightarrow> error + nat" where
  "len_of_element (SeqElem t kw items) = Inr (length items)"
| "len_of_element (Plain t vr kw v) = (if vr = ''SQ'' then Inl TypeError else py_len v)"

text \<open>
  The layout check on the first dataset: \<open>dicom_type\<close> and \<open>n_images_per_file\<close> as the
  \<^verbatim>\<open>if\<close>/\<^verbatim>\<open>else\<close> assigns them.
\<close>

definition classify :: "dataset \<Rightarrow> error + int \<times> nat" where
  "classify ds =
     (if keyword_in ''PerFrameFunctionalGroupsSequence'' ds then
        (case find (\<lambda>e. keyword e = ''PerFrameFunctionalGroupsSequence'') ds of
           Some e \<Rightarrow> and_then (len_of_element e) (\<lambda>n_images_per_file. Inr (2, n_images_per_file))
         | None \<Rightarrow> Inl KeyError)
      else Inr (1, 1))"

record row =
  file_name :: string
  nominal_interval :: pyval
  acquisition_time :: pyval
  acquisition_date :: pyval
  nii_file_suffix :: pyval

text \<open>The tuple appended for one frame; its components are evaluated in order.\<close>

definition make_row ::
  "(pyval \<Rightarrow> string) \<Rightarrow> string \<Rightarrow> pydict \<Rightarrow> int \<Rightarrow> int \<Rightarrow> error + row" where
  "make_row repr name c_dicom_header dicom_type frame_idx =
     and_then (get_nominal_interval c_dicom_header dicom_type frame_idx) (\<lambda>interval.
     and_then (get_acquisition_time c_dicom_header dicom_type frame_idx) (\<lambda>time.
     and_then (get_acquisition_date c_dicom_header dicom_type frame_idx) (\<lambda>date.
     and_then (get_nii_file_suffix repr c_dicom_header dicom_type frame_idx) (\<lambda>suffix.
     Inr \<lparr>file_name = name, nominal_interval = interval, acquisition_time = time,
          acquisition_date = date, nii_file_suffix = suffix\<rparr>))))"

text \<open>The inner loop over \<^verbatim>\<open>range(n_images_per_file)\<close>, appending to \<open>df\<close>.\<close>

fun frame_loop ::
  "(pyval \<Rightarrow> string) \<Rightarrow> string \<Rightarrow> pydict \<Rightarrow> int \<Rightarrow> int list \<Rightarrow> row list \<Rightarrow> error + row list" where
  "frame_loop repr name c_dicom_header dicom_type [] df = Inr df"
| "frame_loop repr name c_dicom_header dicom_type (frame_idx # rest) df =
     and_then (make_row repr name c_dicom_header dicom_type frame_idx) (\<lambda>r.
     frame_loop repr name c_dicom_header dicom_type rest (df @ [r]))"

text \<open>The outer loop over the files.\<close>

fun file_loop ::
  "(pyval \<Rightarrow> string) \<Rightarrow> int \<Rightarrow> nat \<Rightarrow> dicom_file list \<Rightarrow> row list \<Rightarrow> error + row list" where
  "file_loop repr dicom_type n_images_per_file [] df = Inr df"
| "file_loop repr dicom_type n_images_per_file (f # files) df =
     and_then (dcmread f) (\<lambda>ds.
     and_then (dictify ds) (\<lambda>c_dicom_header.
     and_then (frame_loop repr (base_name f) c_dicom_header dicom_type
                 (map int [0..<n_images_per_file]) df) (\<lambda>df.
     file_loop repr dicom_type n_images_per_file files df)))"

subsection \<open>The exporter\<close>

text \<open>
  \<^verbatim>\<open>df.sort_values(by=["acquisition_date", "acquisition_time"])\<close> is a stable sort on the
  pair of the two cells, ascending. Among the cells, strings are in Python's string
  order, which compares code points, and a missing cell (\<^verbatim>\<open>None\<close>) comes after them.
  A list or a dict in a key column cannot be hashed and the sort raises. Where pandas
  puts a number in a key column is left open: \<open>cell_key\<close> has no equation for it.
\<close>

fun hashable :: "pyval \<Rightarrow> bool" where
  "hashable (PList xs) = False"
| "hashable (PDict d) = False"
| "hashable _ = True"

fun cell_key :: "pyval \<Rightarrow> nat \<times> string" where
  "cell_key (PStr s) = (0, s)"
| "cell_key PNone = (1, [])"

definition sort_key_of :: "row \<Rightarrow> (nat \<times> string) \<times> (nat \<times> string)" where
  "sort_key_of r = (cell_key (acquisition_date r), cell_key (acquisition_time r))"

definition sort_values :: "row list \<Rightarrow> error + row list" where
  "sort_values df =
     (if list_all (\<lambda>r. hashable (acquisition_date r) \<and> hashable (acquisition_time r)) df
      then Inr (sort_key sort_key_of df)
      else Inl TypeError)"

subsection \<open>The whole run\<close>

text \<open>
  \<open>get_data_from_dicoms_and_export\<close> from the listing of the input directory to the
  table that is written to \<^verbatim>\<open>rr_timings.csv\<close>. Creating the output folder, the call of
  the converter and the printed messages come before and leave the table as it is.
\<close>

definition get_data_from_dicoms_and_export ::
  "(pyval \<Rightarrow> string) \<Rightarrow> dicom_file list \<Rightarrow> error + row list" where
  "get_data_from_dicoms_and_export repr listing =
     (let dicom_files = list_dicom_files listing
      in and_then (seq_index dicom_files 0) (\<lambda>first.
         and_then (dcmread first) (\<lambda>ds.
         and_then (classify ds) (\<lambda>(dicom_type, n_images_per_file).
         and_then (file_loop repr dicom_type n_images_per_file dicom_files []) (\<lambda>df.
         sort_values df)))))"

section \<open>Example inputs\<close>

text \<open>
  The legacy header of the concrete scenario: series description \<^verbatim>\<open>DTI SAX\<close>, series
  date \<^verbatim>\<open>20230101\<close>, study time \<^verbatim>\<open>143022.5\<close>, series number 7, acquisition date
  \<^verbatim>\<open>20230101\<close>, acquisition time \<^verbatim>\<open>143025\<close>, nominal interval \<^verbatim>\<open>850\<close>.
\<close>

definition scenario_header :: pydict where
  "scenario_header =
     [(''SeriesDescription'', PStr ''DTI SAX''), (''SeriesDate'', PStr ''20230101''),
      (''StudyTime'', PStr ''143022.5''), (''SeriesNumber'', PInt 7),
      (''AcquisitionDate'', PStr ''20230101''), (''AcquisitionTime'', PStr ''143025''),
      (''NominalInterval'', PStr ''850'')]"

text \<open>
  A legacy dataset with the fields of the scenario and one private element, the
  diffusion b-value at (0019,100C); a modern dataset of two frames, stored out of time
  order; and two input directories.
\<close>

definition legacy_dataset :: "string \<Rightarrow> dataset" where
  "legacy_dataset time =
     [Plain (0x0008, 0x0021) ''DA'' ''SeriesDate'' (PStr ''20230101''),
      Plain (0x0008, 0x0022) ''DA'' ''AcquisitionDate'' (PStr ''20230101''),
      Plain (0x0008, 0x0030) ''TM'' ''StudyTime'' (PStr ''143022.5''),
      Plain (0x0008, 0x0032) ''TM'' ''AcquisitionTime'' (PStr time),
      Plain (0x0008, 0x103E) ''LO'' ''SeriesDescription'' (PStr ''DTI SAX''),
      Plain (0x0018, 0x1062) ''IS'' ''NominalInterval'' (PInt 850),
      Plain (0x0019, 0x100C) ''IS'' [] (PInt 450),
      Plain (0x0020, 0x0011) ''IS'' ''SeriesNumber'' (PInt 7)]"

definition modern_frame :: "string \<Rightarrow> dataset" where
  "modern_frame datetime =
     [SeqElem (0x0018, 0x9118) ''CardiacSynchronizationSequence''
        [[Plain (0x0020, 0x9251) ''FD'' ''RRIntervalTimeNominal'' (PFloat (Finite 850))]],
      SeqElem (0x0020, 0x9111) ''FrameContentSequence''
        [[Plain (0x0018, 0x9074) ''DT'' ''FrameAcquisitionDateTime'' (PStr datetime)]]]"

definition modern_dataset :: dataset where
  "modern_dataset =
     [Plain (0x0008, 0x0021) ''DA'' ''SeriesDate'' (PStr ''20230101''),
      Plain (0x0008, 0x0030) ''TM'' ''StudyTime'' (PStr ''143022.5''),
      Plain (0x0008, 0x103E) ''LO'' ''SeriesDescription'' (PStr ''DTI SAX''),
      Plain (0x0020, 0x0011) ''IS'' ''SeriesNumber'' (PInt 7),
      SeqElem (0x5200, 0x9230) ''PerFrameFunctionalGroupsSequence''
        [modern_frame ''20230101143021'', modern_frame ''20230101143020'']]"

definition legacy_listing :: "dicom_file list" where
  "legacy_listing =
     [\<lparr>base_name = ''IM0002.dcm'', contents = Inr (legacy_dataset ''143025'')\<rparr>,
      \<lparr>base_name = ''notes.txt'', contents = Inl InvalidDicomError\<rparr>,
      \<lparr>base_name = ''IM0001.dcm'', contents = Inr (legacy_dataset ''143030'')\<rparr>]"

definition modern_listing :: "dicom_file list" where
  "modern_listing = [\<lparr>base_name = ''MF0001.dcm'', contents = Inr modern_dataset\<rparr>]"

text \<open>
  The flattened headers of these datasets, and the row that a file of either layout gives
  for a file name and an acquisition time.
\<close>

definition legacy_header :: "string \<Rightarrow> pydict" where
  "legacy_header time =
     [(''SeriesDate'', PStr ''20230101''), (''AcquisitionDate'', PStr ''20230101''),
      (''StudyTime'', PStr ''143022.5''), (''AcquisitionTime'', PStr time),
      (''SeriesDescription'', PStr ''DTI SAX''), (''NominalInterval'', PInt 850),
      ([], PInt 450), (''SeriesNumber'', PInt 7), (''DiffusionBValue'', PInt 450)]"

definition modern_frame_header :: "string \<Rightarrow> pyval" where
  "modern_frame_header datetime =
     PDict [(''CardiacSynchronizationSequence'',
               PList [PDict [(''RRIntervalTimeNominal'', PFloat (Finite 850))]]),
            (''FrameContentSequence'',
               PList [PDict [(''FrameAcquisitionDateTime'', PStr datetime)]])]"

definition modern_header :: pydict where
  "modern_header =
     [(''SeriesDate'', PStr ''20230101''), (''StudyTime'', PStr ''143022.5''),
      (''SeriesDescription'', PStr ''DTI SAX''), (''SeriesNumber'', PInt 7),
      (''PerFrameFunctionalGroupsSequence'',
         PList [modern_frame_header ''20230101143021'', modern_frame_header ''20230101143020''])]"

definition example_row :: "string \<Rightarrow> string \<Rightarrow> row" where
  "example_row name time =
     \<lparr>file_name = name, nominal_interval = PFloat (Finite 850),
      acquisition_time = PStr time, acquisition_date = PStr ''20230101'',
      nii_file_suffix = PStr ''DTI_SAX_20230101143022_7''\<rparr>"

text \<open>A table whose second and fourth rows have the same date and time.\<close>

definition example_table :: "row list" where
  "example_table =
     [\<lparr>file_name = ''a.dcm'', nominal_interval = PFloat (Finite 850),
       acquisition_time = PStr ''090000'', acquisition_date = PStr ''20230102'',
       nii_file_suffix = PStr ''s_1''\<rparr>,
      \<lparr>file_name = ''b.dcm'', nominal_interval = PFloat (Finite 851),
       acquisition_time = PStr ''143025'', acquisition_date = PStr ''20230101'',
       nii_file_suffix = PStr ''s_1''\<rparr>,
      \<lparr>file_name = ''c.dcm'', nominal_interval = PFloat (Finite 852),
       acquisition_time = PStr ''143020'', acquisition_date = PStr ''20230101'',
       nii_file_suffix = PStr ''s_1''\<rparr>,
      \<lparr>file_name = ''d.dcm'', nominal_interval = PFloat (Finite 853),
       acquisition_time = PStr ''143025'', acquisition_date = PStr ''20230101'',
       nii_file_suffix = PStr ''s_1''\<rparr>]"

text \<open>What the data model says of the two key columns: the cell is a \<^verbatim>\<open>str\<close>.\<close>

fun is_str :: "pyval \<Rightarrow> bool" where
  "is_str (PStr s) = True"
| "is_str _ = False"

section \<open>Evaluation lemmas\<close>

lemma and_then_Inr [simp]: "and_then (Inr v) f = f v"
  by (simp add: and_then_def)

lemma and_then_Inl [simp]: "and_then (Inl e) f = Inl e"
  by (simp add: and_then_def)

lemma and_then_eq_Inr: "and_then r f = Inr y \<longleftrightarrow> (\<exists>v. r = Inr v \<and> f v = Inr y)"
  by (cases r) simp_all

lemma floor_numeral_div: "\<lfloor>numeral a / numeral b :: rat\<rfloor> = numeral a div numeral b"
  using floor_divide_of_int_eq [of "numeral a" "numeral b", where ?'a = rat] by simp

lemmas float_defs =
  float_of_str_def strip_space_def float_space_def split_sign_def lower_def
  parse_decimal_def is_digit_def parse_exponent_def nat_of_digits_def digit_value_def
  decimal_to_double_def nearest_double_def scaled_ge_def round_half_even_div_def pow2_def
  Let_def

lemma float_of_study_time: "float_of_str ''143022.5'' = Inr (Finite (286045 / 2))"
  by (simp add: float_defs)

lemma float_of_interval: "float_of_str ''850'' = Inr (Finite 850)"
  by (simp add: float_defs)

lemma round_study_time: "round_half_even (286045 / 2) = 143022"
  by (simp add: round_half_even_def Let_def floor_numeral_div)

lemma str_of_143022: "str_of_int 143022 = ''143022''"
  by (simp add: str_of_int_def)

lemma str_of_7: "str_of_int 7 = ''7''"
  by (simp add: str_of_int_def)

lemma scenario_suffix:
  "get_nii_file_suffix repr scenario_header 1 i = Inr (PStr ''DTI_SAX_20230101143022_7'')"
  by (simp add: get_nii_file_suffix_def scenario_header_def dict_get_def float_of_study_time
      round_study_time str_of_143022 str_of_7 replace_char_def)

lemma scenario_interval:
  "get_nominal_interval scenario_header 1 i = Inr (PFloat (Finite 850))"
  by (simp add: get_nominal_interval_def scenario_header_def dict_get_def float_of_interval)

lemma scenario_time: "get_acquisition_time scenario_header 1 i = Inr (PStr ''143025'')"
  by (simp add: get_acquisition_time_def scenario_header_def dict_get_def)

lemma scenario_date: "get_acquisition_date scenario_header 1 i = Inr (PStr ''20230101'')"
  by (simp add: get_acquisition_date_def scenario_header_def dict_get_def)

section \<open>The concrete legacy scenario\<close>

text \<open>
  C1, as the specification states it: on the scenario header one assembly step gives the
  row with interval 850.0, time \<^verbatim>\<open>143025\<close>, date \<^verbatim>\<open>20230101\<close> and suffix
  \<^verbatim>\<open>DTI_SAX_20230101143023_7\<close>. The code does not produce that suffix: Python's \<^verbatim>\<open>round\<close>
  sends the tie 143022.5 to the even neighbour 143022.
\<close>

theorem scenario_row_counterexample:
  "make_row (\<lambda>v. []) ''IM0001.dcm'' scenario_header 1 0 \<noteq>
     Inr \<lparr>file_name = ''IM0001.dcm'', nominal_interval = PFloat (Finite 850),
          acquisition_time = PStr ''143025'', acquisition_date = PStr ''20230101'',
          nii_file_suffix = PStr ''DTI_SAX_20230101143023_7''\<rparr>"
  by (simp add: make_row_def scenario_suffix scenario_interval scenario_time scenario_date)

text \<open>
  C1, amended: for every file name and frame index, one assembly step on the scenario
  header under the legacy tag gives the row with interval 850.0, time \<^verbatim>\<open>143025\<close>, date
  \<^verbatim>\<open>20230101\<close> and suffix \<^verbatim>\<open>DTI_SAX_20230101143022_7\<close>: the study time 143022.5 is
  rounded half to even, to 143022.
\<close>

theorem scenario_row:
  "make_row repr name scenario_header 1 frame_idx =
     Inr \<lparr>file_name = name, nominal_interval = PFloat (Finite 850),
          acquisition_time = PStr ''143025'', acquisition_date = PStr ''20230101'',
          nii_file_suffix = PStr ''DTI_SAX_20230101143022_7''\<rparr>"
  by (simp add: make_row_def scenario_suffix scenario_interval scenario_time scenario_date)

theorem scenario_row_witness:
  "make_row (\<lambda>v. []) ''IM0001.dcm'' scenario_header 1 0 =
     Inr \<lparr>file_name = ''IM0001.dcm'', nominal_interval = PFloat (Finite 850),
          acquisition_time = PStr ''143025'', acquisition_date = PStr ''20230101'',
          nii_file_suffix = PStr ''DTI_SAX_20230101143022_7''\<rparr>"
  using scenario_row [of "\<lambda>v. []" "''IM0001.dcm''" 0] by simp

section \<open>The loops and the run\<close>

lemma frame_loop_rows:
  "frame_loop repr name h t idxs df = Inr df' \<Longrightarrow>
   \<exists>rows. df' = df @ rows \<and> length rows = length idxs \<and>
     (\<forall>k < length idxs. make_row repr name h t (idxs ! k) = Inr (rows ! k))"
proof (induction idxs arbitrary: df)
  case Nil
  then show ?case by simp
next
  case (Cons i idxs)
  from Cons.prems obtain r where r: "make_row repr name h t i = Inr r"
    and rest: "frame_loop repr name h t idxs (df @ [r]) = Inr df'"
    by (auto simp: and_then_eq_Inr)
  from Cons.IH [OF rest] obtain rows where rows: "df' = (df @ [r]) @ rows"
    "length rows = length idxs"
    "\<forall>k < length idxs. make_row repr name h t (idxs ! k) = Inr (rows ! k)"
    by blast
  have "\<forall>k < length (i # idxs). make_row repr name h t ((i # idxs) ! k) = Inr ((r # rows) ! k)"
    using r rows(3) by (auto simp: nth_Cons split: nat.splits)
  with rows(1,2) show ?case
    by (intro exI [of _ "r # rows"]) simp
qed

lemma file_loop_rows:
  "file_loop repr t K files df = Inr df' \<Longrightarrow>
   \<exists>rows. df' = df @ rows \<and> length rows = length files * K \<and>
     (\<forall>k < length files * K. \<exists>ds h.
        dcmread (files ! (k div K)) = Inr ds \<and> dictify ds = Inr h \<and>
        make_row repr (base_name (files ! (k div K))) h t (int (k mod K)) = Inr (rows ! k))"
proof (induction files arbitrary: df)
  case Nil
  then show ?case by simp
next
  case (Cons f files)
  from Cons.prems obtain ds h df1 where ds: "dcmread f = Inr ds" and h: "dictify ds = Inr h"
    and fl: "frame_loop repr (base_name f) h t (map int [0..<K]) df = Inr df1"
    and rest: "file_loop repr t K files df1 = Inr df'"
    by (auto simp: and_then_eq_Inr simp del: dictify.simps)
  from frame_loop_rows [OF fl] obtain rows1 where rows1: "df1 = df @ rows1" "length rows1 = K"
    "\<forall>k < K. make_row repr (base_name f) h t (int k) = Inr (rows1 ! k)"
    by auto
  from Cons.IH [OF rest] obtain rows2 where rows2: "df' = df1 @ rows2"
    "length rows2 = length files * K"
    "\<forall>k < length files * K. \<exists>ds h.
        dcmread (files ! (k div K)) = Inr ds \<and> dictify ds = Inr h \<and>
        make_row repr (base_name (files ! (k div K))) h t (int (k mod K)) = Inr (rows2 ! k)"
    by blast
  have "\<exists>ds h. dcmread ((f # files) ! (k div K)) = Inr ds \<and> dictify ds = Inr h \<and>
        make_row repr (base_name ((f # files) ! (k div K))) h t (int (k mod K))
          = Inr ((rows1 @ rows2) ! k)"
    if k: "k < length (f # files) * K" for k
  proof (cases "k < K")
    case True
    then show ?thesis using ds h rows1 by (auto simp: nth_append)
  next
    case False
    then have kK: "K \<le> k" by simp
    from k have K0: "0 < K" by (cases K) auto
    have d: "k div K = Suc ((k - K) div K)" using kK K0 by (simp add: le_div_geq)
    have m: "k mod K = (k - K) mod K" using kK by (simp add: le_mod_geq)
    have "k - K < length files * K" using k kK by simp
    with rows2(3) obtain ds' h' where
      "dcmread (files ! ((k - K) div K)) = Inr ds'" "dictify ds' = Inr h'"
      "make_row repr (base_name (files ! ((k - K) div K))) h' t (int ((k - K) mod K))
         = Inr (rows2 ! (k - K))"
      by blast
    then show ?thesis using d m False rows1(2) by (auto simp: nth_append simp del: dictify.simps)
  qed
  then show ?case using rows1(1,2) rows2(1,2)
    by (intro exI [of _ "rows1 @ rows2"]) simp
qed

lemma make_row_file_name: "make_row repr name h t i = Inr r \<Longrightarrow> file_name r = name"
  by (auto simp: make_row_def and_then_eq_Inr)

lemma run_success:
  assumes "get_data_from_dicoms_and_export repr listing = Inr table"
  defines "dicom_files \<equiv> list_dicom_files listing"
  shows "\<exists>ds t K df. dicom_files \<noteq> [] \<and> dcmread (hd dicom_files) = Inr ds \<and>
     classify ds = Inr (t, K) \<and> file_loop repr t K dicom_files [] = Inr df \<and>
     sort_values df = Inr table"
proof -
  from assms(1) obtain first ds tk df where
    a: "seq_index dicom_files 0 = Inr first" "dcmread first = Inr ds" "classify ds = Inr tk"
    "(case tk of (t, K) \<Rightarrow> and_then (file_loop repr t K dicom_files []) sort_values) = Inr table"
    unfolding get_data_from_dicoms_and_export_def Let_def dicom_files_def [symmetric]
    by (auto simp: and_then_eq_Inr)
  obtain t K where tk: "tk = (t, K)" by (cases tk)
  from a(1) have ne: "dicom_files \<noteq> []" and first: "first = hd dicom_files"
    by (auto simp: seq_index_def hd_conv_nth split: if_splits)
  from a(4) tk obtain df where "file_loop repr t K dicom_files [] = Inr df" "sort_values df = Inr table"
    by (auto simp: and_then_eq_Inr)
  with a ne first tk show ?thesis by blast
qed

section \<open>The example runs\<close>

lemma dictify_legacy: "dictify (legacy_dataset time) = Inr (legacy_header time)"
  by (simp add: legacy_dataset_def legacy_header_def)

lemma dictify_modern_frame: "dictify (modern_frame datetime) = Inr (case modern_frame_header datetime of PDict d \<Rightarrow> d)"
  by (simp add: modern_frame_def modern_frame_header_def)

lemma dictify_modern: "dictify modern_dataset = Inr modern_header"
  by (simp add: modern_dataset_def modern_header_def modern_frame_def modern_frame_header_def)

lemma int_to_double_850: "int_to_double 850 = Inr (Finite 850)"
  by (simp add: int_to_double_def nearest_double_def scaled_ge_def round_half_even_div_def pow2_def Let_def)

lemma suffix_fields:
  assumes "dict_get h ''SeriesDescription'' = Inr (PStr ''DTI SAX'')"
    and "dict_get h ''SeriesDate'' = Inr (PStr ''20230101'')"
    and "dict_get h ''StudyTime'' = Inr (PStr ''143022.5'')"
    and "dict_get h ''SeriesNumber'' = Inr (PInt 7)"
  shows "get_nii_file_suffix repr h 1 i = Inr (PStr ''DTI_SAX_20230101143022_7'')"
  using assms
  by (simp add: get_nii_file_suffix_def float_of_study_time
      round_study_time str_of_143022 str_of_7 replace_char_def)

lemma legacy_make_row:
  "make_row repr name (legacy_header time) 1 i = Inr (example_row name time)"
proof -
  have "get_nii_file_suffix repr (legacy_header time) 1 i = Inr (PStr ''DTI_SAX_20230101143022_7'')"
    by (rule suffix_fields) (simp_all add: legacy_header_def dict_get_def)
  moreover have "get_nominal_interval (legacy_header time) 1 i = Inr (PFloat (Finite 850))"
    by (simp add: get_nominal_interval_def legacy_header_def dict_get_def int_to_double_850)
  moreover have "get_acquisition_time (legacy_header time) 1 i = Inr (PStr time)"
    by (simp add: get_acquisition_time_def legacy_header_def dict_get_def)
  moreover have "get_acquisition_date (legacy_header time) 1 i = Inr (PStr ''20230101'')"
    by (simp add: get_acquisition_date_def legacy_header_def dict_get_def)
  ultimately show ?thesis
    by (simp add: make_row_def example_row_def)
qed

lemma modern_make_row_0:
  "make_row repr name modern_header 2 0 = Inr (example_row name ''143021'')"
proof -
  have "get_nii_file_suffix repr modern_header 1 0 = Inr (PStr ''DTI_SAX_20230101143022_7'')"
    by (rule suffix_fields) (simp_all add: modern_header_def dict_get_def)
  then have "get_nii_file_suffix repr modern_header 2 0 = Inr (PStr ''DTI_SAX_20230101143022_7'')"
    by (simp add: get_nii_file_suffix_def)
  moreover have "get_nominal_interval modern_header 2 0 = Inr (PFloat (Finite 850))"
    by (simp add: get_nominal_interval_def modern_header_def modern_frame_header_def dict_get_def seq_index_def)
  moreover have "get_acquisition_time modern_header 2 0 = Inr (PStr ''143021'')"
    by (simp add: get_acquisition_time_def modern_header_def modern_frame_header_def dict_get_def seq_index_def)
  moreover have "get_acquisition_date modern_header 2 0 = Inr (PStr ''20230101'')"
    by (simp add: get_acquisition_date_def modern_header_def modern_frame_header_def dict_get_def seq_index_def)
  ultimately show ?thesis
    by (simp add: make_row_def example_row_def)
qed

lemma modern_make_row_1:
  "make_row repr name modern_header 2 1 = Inr (example_row name ''143020'')"
proof -
  have "get_nii_file_suffix repr modern_header 1 0 = Inr (PStr ''DTI_SAX_20230101143022_7'')"
    by (rule suffix_fields) (simp_all add: modern_header_def dict_get_def)
  then have "get_nii_file_suffix repr modern_header 2 1 = Inr (PStr ''DTI_SAX_20230101143022_7'')"
    by (simp add: get_nii_file_suffix_def)
  moreover have "get_nominal_interval modern_header 2 1 = Inr (PFloat (Finite 850))"
    by (simp add: get_nominal_interval_def modern_header_def modern_frame_header_def dict_get_def seq_index_def)
  moreover have "get_acquisition_time modern_header 2 1 = Inr (PStr ''143020'')"
    by (simp add: get_acquisition_time_def modern_header_def modern_frame_header_def dict_get_def seq_index_def)
  moreover have "get_acquisition_date modern_header 2 1 = Inr (PStr ''20230101'')"
    by (simp add: get_acquisition_date_def modern_header_def modern_frame_header_def dict_get_def seq_index_def)
  ultimately show ?thesis
    by (simp add: make_row_def example_row_def)
qed

lemma classify_legacy: "classify (legacy_dataset time) = Inr (1, 1)"
  by (simp add: classify_def keyword_in_def legacy_dataset_def)

lemma classify_modern: "classify modern_dataset = Inr (2, 2)"
  by (simp add: classify_def keyword_in_def modern_dataset_def)

lemma upt_2: "[0..<2] = [0, 1]"
  by (simp add: upt_rec)

lemma legacy_files:
  "list_dicom_files legacy_listing =
     [\<lparr>base_name = ''IM0001.dcm'', contents = Inr (legacy_dataset ''143030'')\<rparr>,
      \<lparr>base_name = ''IM0002.dcm'', contents = Inr (legacy_dataset ''143025'')\<rparr>]"
  by (simp add: list_dicom_files_def legacy_listing_def glob_dcm_def less_eq_char_def
      less_char_def)

lemma run_legacy:
  "get_data_from_dicoms_and_export repr legacy_listing =
     Inr [example_row ''IM0002.dcm'' ''143025'', example_row ''IM0001.dcm'' ''143030'']"
  unfolding get_data_from_dicoms_and_export_def legacy_files Let_def
  by (simp add: seq_index_def dcmread_def classify_legacy dictify_legacy legacy_make_row
      sort_values_def example_row_def sort_key_of_def less_eq_char_def less_char_def
      del: dictify.simps)

lemma modern_files:
  "list_dicom_files modern_listing = [\<lparr>base_name = ''MF0001.dcm'', contents = Inr modern_dataset\<rparr>]"
  by (simp add: list_dicom_files_def modern_listing_def glob_dcm_def)

lemma run_modern:
  "get_data_from_dicoms_and_export repr modern_listing =
     Inr [example_row ''MF0001.dcm'' ''143020'', example_row ''MF0001.dcm'' ''143021'']"
  unfolding get_data_from_dicoms_and_export_def modern_files Let_def
  by (simp add: seq_index_def dcmread_def classify_modern dictify_modern upt_2
      modern_make_row_0 modern_make_row_1 sort_values_def example_row_def sort_key_of_def
      less_eq_char_def less_char_def
      del: dictify.simps)

section \<open>The exporter's sort\<close>

lemma sort_values_Inr: "sort_values df = Inr out \<Longrightarrow> out = sort_key sort_key_of df"
  by (auto simp: sort_values_def split: if_splits)

lemma is_str_hashable: "is_str v \<Longrightarrow> hashable v"
  by (cases v) simp_all

lemma sort_values_str_cells:
  assumes "list_all (\<lambda>r. is_str (acquisition_date r) \<and> is_str (acquisition_time r)) df"
  shows "sort_values df = Inr (sort_key sort_key_of df)"
proof -
  have "list_all (\<lambda>r. hashable (acquisition_date r) \<and> hashable (acquisition_time r)) df"
    using assms by (induction df) (auto simp: is_str_hashable)
  then show ?thesis by (simp add: sort_values_def)
qed

lemma sort_key_of_str_le:
  assumes "acquisition_date r = PStr d1" "acquisition_time r = PStr t1"
    and "acquisition_date r' = PStr d2" "acquisition_time r' = PStr t2"
  shows "sort_key_of r \<le> sort_key_of r' \<longleftrightarrow> d1 < d2 \<or> (d1 = d2 \<and> t1 \<le> t2)"
  using assms by (auto simp: sort_key_of_def less_eq_prod_def less_prod_def)

lemma filter_cells_sort:
  "filter (\<lambda>r. acquisition_date r = d \<and> acquisition_time r = t) (sort_key sort_key_of df) =
   filter (\<lambda>r. acquisition_date r = d \<and> acquisition_time r = t) df"
proof -
  let ?P = "\<lambda>r. acquisition_date r = d \<and> acquisition_time r = t"
  let ?k = "(cell_key d, cell_key t)"
  have P: "?P r \<Longrightarrow> sort_key_of r = ?k" for r
    by (simp add: sort_key_of_def)
  have "filter ?P xs = filter ?P (filter (\<lambda>r. sort_key_of r = ?k) xs)" for xs
    using P by (induction xs) auto
  then have "filter ?P (sort_key sort_key_of df)
      = filter ?P (filter (\<lambda>r. sort_key_of r = ?k) (sort_key sort_key_of df))"
    and "filter ?P df = filter ?P (filter (\<lambda>r. sort_key_of r = ?k) df)"
    by blast+
  then show ?thesis by (simp only: sort_key_stable)
qed

lemma sort_example_table:
  "sort_values example_table =
     Inr [example_table ! 2, example_table ! 1, example_table ! 3, example_table ! 0]"
  by (simp add: sort_values_def example_table_def sort_key_of_def less_eq_prod_def less_prod_def
      less_eq_char_def less_char_def)

text \<open>
  C2: the exporter sorts the table stably by (acquisition date, acquisition time),
  ascending. On a table whose date and time cells are strings the sort returns a
  rearrangement of the rows in which, for any two positions, the earlier row has the
  smaller date, or the same date and a time that is not larger; and the rows of any one
  (date, time) pair stand in the order they had before.
\<close>

theorem sort_values_by_date_then_time:
  assumes "list_all (\<lambda>r. is_str (acquisition_date r) \<and> is_str (acquisition_time r)) df"
  shows "\<exists>out. sort_values df = Inr out \<and> mset out = mset df \<and>
     (\<forall>i j d1 t1 d2 t2. i < j \<and> j < length out \<and>
         acquisition_date (out ! i) = PStr d1 \<and> acquisition_time (out ! i) = PStr t1 \<and>
         acquisition_date (out ! j) = PStr d2 \<and> acquisition_time (out ! j) = PStr t2 \<longrightarrow>
         d1 < d2 \<or> (d1 = d2 \<and> t1 \<le> t2)) \<and>
     (\<forall>d t. filter (\<lambda>r. acquisition_date r = d \<and> acquisition_time r = t) out =
            filter (\<lambda>r. acquisition_date r = d \<and> acquisition_time r = t) df)"
proof -
  let ?out = "sort_key sort_key_of df"
  have res: "sort_values df = Inr ?out"
    using assms by (rule sort_values_str_cells)
  have sorted: "sorted (map sort_key_of ?out)"
    by (rule sorted_sort_key)
  have order: "d1 < d2 \<or> (d1 = d2 \<and> t1 \<le> t2)"
    if "i < j" "j < length ?out"
      "acquisition_date (?out ! i) = PStr d1" "acquisition_time (?out ! i) = PStr t1"
      "acquisition_date (?out ! j) = PStr d2" "acquisition_time (?out ! j) = PStr t2"
    for i j d1 t1 d2 t2
  proof -
    have "map sort_key_of ?out ! i \<le> map sort_key_of ?out ! j"
      using sorted that(1,2) by (intro sorted_nth_mono) auto
    then have "sort_key_of (?out ! i) \<le> sort_key_of (?out ! j)"
      using that(1,2) by simp
    then show ?thesis
      using that(3-6) by (simp add: sort_key_of_str_le)
  qed
  show ?thesis
    using res order filter_cells_sort by (intro exI [of _ ?out]) (simp, blast)
qed

theorem sort_values_by_date_then_time_witness:
  "list_all (\<lambda>r. is_str (acquisition_date r) \<and> is_str (acquisition_time r)) example_table \<and>
   sort_values example_table =
     Inr [example_table ! 2, example_table ! 1, example_table ! 3, example_table ! 0] \<and>
   (\<exists>out. sort_values example_table = Inr out \<and> mset out = mset example_table \<and>
     (\<forall>i j d1 t1 d2 t2. i < j \<and> j < length out \<and>
         acquisition_date (out ! i) = PStr d1 \<and> acquisition_time (out ! i) = PStr t1 \<and>
         acquisition_date (out ! j) = PStr d2 \<and> acquisition_time (out ! j) = PStr t2 \<longrightarrow>
         d1 < d2 \<or> (d1 = d2 \<and> t1 \<le> t2)) \<and>
     (\<forall>d t. filter (\<lambda>r. acquisition_date r = d \<and> acquisition_time r = t) out =
            filter (\<lambda>r. acquisition_date r = d \<and> acquisition_time r = t) example_table))"
proof -
  have cells: "list_all (\<lambda>r. is_str (acquisition_date r) \<and> is_str (acquisition_time r)) example_table"
    by (simp add: example_table_def)
  show ?thesis
    using cells sort_example_table sort_values_by_date_then_time [OF cells] by simp
qed

section \<open>The extractors\<close>

text \<open>
  C6: under a layout tag that is neither 1 (legacy) nor 2 (modern), each of the four
  extractors returns \<^verbatim>\<open>None\<close> for every header and frame index, and raises nothing.
\<close>

theorem unrecognized_layout_returns_none:
  assumes "dicom_type \<noteq> 1" and "dicom_type \<noteq> 2"
  shows "get_nominal_interval c_dicom_header dicom_type frame_idx = Inr PNone \<and>
     get_acquisition_time c_dicom_header dicom_type frame_idx = Inr PNone \<and>
     get_acquisition_date c_dicom_header dicom_type frame_idx = Inr PNone \<and>
     get_nii_file_suffix repr c_dicom_header dicom_type frame_idx = Inr PNone"
  using assms
  by (simp add: get_nominal_interval_def get_acquisition_time_def get_acquisition_date_def
      get_nii_file_suffix_def)

theorem unrecognized_layout_returns_none_witness:
  "(0 :: int) \<noteq> 1 \<and> (0 :: int) \<noteq> 2 \<and>
   get_nominal_interval scenario_header 0 0 = Inr PNone \<and>
   get_acquisition_time scenario_header 0 0 = Inr PNone \<and>
   get_acquisition_date scenario_header 0 0 = Inr PNone \<and>
   get_nii_file_suffix (\<lambda>v. []) scenario_header 0 0 = Inr PNone"
  using unrecognized_layout_returns_none [of 0 scenario_header 0 "\<lambda>v. []"] by simp

text \<open>
  C7: the output suffix is the same under both layouts: for every header and all frame
  indices \<open>i\<close> and \<open>j\<close>, the legacy call with \<open>i\<close> and the modern call with \<open>j\<close>
  give the same result, the same exception included.
\<close>

theorem suffix_same_under_both_layouts:
  "get_nii_file_suffix repr c_dicom_header 1 i = get_nii_file_suffix repr c_dicom_header 2 j"
  by (simp add: get_nii_file_suffix_def)

theorem suffix_same_under_both_layouts_witness:
  "get_nii_file_suffix (\<lambda>v. []) scenario_header 1 0 = get_nii_file_suffix (\<lambda>v. []) scenario_header 2 5 \<and>
   get_nii_file_suffix (\<lambda>v. []) scenario_header 2 5 = Inr (PStr ''DTI_SAX_20230101143022_7'')"
  using suffix_same_under_both_layouts [of "\<lambda>v. []" scenario_header 0 5] scenario_suffix [of "\<lambda>v. []" 0]
  by simp

text \<open>
  C8: under the legacy tag the frame index is not used: each of the four extractors gives
  the same result for any two frame indices.
\<close>

theorem legacy_ignores_frame_index:
  "get_nominal_interval c_dicom_header 1 i = get_nominal_interval c_dicom_header 1 j \<and>
   get_acquisition_time c_dicom_header 1 i = get_acquisition_time c_dicom_header 1 j \<and>
   get_acquisition_date c_dicom_header 1 i = get_acquisition_date c_dicom_header 1 j \<and>
   get_nii_file_suffix repr c_dicom_header 1 i = get_nii_file_suffix repr c_dicom_header 1 j"
  by (simp add: get_nominal_interval_def get_acquisition_time_def get_acquisition_date_def
      get_nii_file_suffix_def)

theorem legacy_ignores_frame_index_witness:
  "get_nominal_interval scenario_header 1 0 = get_nominal_interval scenario_header 1 3 \<and>
   get_acquisition_time scenario_header 1 0 = get_acquisition_time scenario_header 1 3 \<and>
   get_acquisition_date scenario_header 1 0 = get_acquisition_date scenario_header 1 3 \<and>
   get_nii_file_suffix (\<lambda>v. []) scenario_header 1 0 =
     get_nii_file_suffix (\<lambda>v. []) scenario_header 1 3 \<and>
   get_acquisition_time scenario_header 1 3 = Inr (PStr ''143025'')"
  using legacy_ignores_frame_index [of scenario_header 0 3 "\<lambda>v. []"] scenario_time [of 3]
  by simp

section \<open>An input directory without DICOM files\<close>

text \<open>
  C9: when no entry of the input directory matches \<^verbatim>\<open>*.dcm\<close>, the run fails: reading
  the first file raises IndexError, before any table is made.
\<close>

theorem empty_input_fails:
  assumes "list_dicom_files listing = []"
  shows "get_data_from_dicoms_and_export repr listing = Inl IndexError"
  using assms by (simp add: get_data_from_dicoms_and_export_def seq_index_def)

theorem empty_input_fails_witness:
  "list_dicom_files [\<lparr>base_name = ''notes.txt'', contents = Inl InvalidDicomError\<rparr>] = [] \<and>
   get_data_from_dicoms_and_export (\<lambda>v. [])
     [\<lparr>base_name = ''notes.txt'', contents = Inl InvalidDicomError\<rparr>] = Inl IndexError"
proof -
  have none: "list_dicom_files [\<lparr>base_name = ''notes.txt'', contents = Inl InvalidDicomError\<rparr>] = []"
    by (simp add: list_dicom_files_def glob_dcm_def)
  show ?thesis using none empty_input_fails [OF none] by simp
qed

section \<open>The header flattener\<close>

lemma dictify_loop_keys:
  "dictify_loop elems out = Inr h \<Longrightarrow> fst ` set h = fst ` set out \<union> keyword ` set elems"
proof (induction elems arbitrary: out)
  case Nil
  then show ?case by simp
next
  case (Cons e elems)
  show ?case
  proof (cases e)
    case (Plain t vr kw v)
    with Cons.prems have "dictify_loop elems (AList.update kw v out) = Inr h"
      by (simp split: if_splits)
    from Cons.IH [OF this] Plain show ?thesis
      by (auto simp: dom_update)
  next
    case (SeqElem t kw items)
    with Cons.prems obtain ds where
      "dictify_loop elems (AList.update kw (PList ds) out) = Inr h"
      by (auto split: sum.splits)
    from Cons.IH [OF this] SeqElem show ?thesis
      by (auto simp: dom_update)
  qed
qed

lemma dictify_keys:
  assumes "dictify ds = Inr h"
  shows "keyword ` set ds \<subseteq> fst ` set h"
    and "fst ` set h \<subseteq> keyword ` set ds \<union> {''DiffusionBValue'', ''DiffusionGradientDirection''}"
proof -
  from assms obtain out b d where out: "dictify_loop ds [] = Inr out"
    and h: "h = (case d of None \<Rightarrow> (case b of None \<Rightarrow> out | Some v \<Rightarrow> AList.update ''DiffusionBValue'' v out)
              | Some v \<Rightarrow> AList.update ''DiffusionGradientDirection'' v
                  (case b of None \<Rightarrow> out | Some v \<Rightarrow> AList.update ''DiffusionBValue'' v out))"
    by (auto simp: Let_def split: sum.splits)
  from dictify_loop_keys [OF out] have k: "fst ` set out = keyword ` set ds" by simp
  show "keyword ` set ds \<subseteq> fst ` set h"
    using k h by (auto simp: dom_update split: option.splits)
  show "fst ` set h \<subseteq> keyword ` set ds \<union> {''DiffusionBValue'', ''DiffusionGradientDirection''}"
    using k h by (auto simp: dom_update split: option.splits)
qed

lemma header_has_per_frame_key:
  assumes "dictify ds = Inr h"
  shows "(map_of h ''PerFrameFunctionalGroupsSequence'' \<noteq> None) =
     keyword_in ''PerFrameFunctionalGroupsSequence'' ds"
proof -
  have "(map_of h ''PerFrameFunctionalGroupsSequence'' \<noteq> None) =
      (''PerFrameFunctionalGroupsSequence'' \<in> fst ` set h)"
    by (simp add: map_of_eq_None_iff)
  also have "\<dots> = (''PerFrameFunctionalGroupsSequence'' \<in> keyword ` set ds)"
    using dictify_keys [OF assms] by auto
  also have "\<dots> = keyword_in ''PerFrameFunctionalGroupsSequence'' ds"
    by (force simp: keyword_in_def list_ex_iff)
  finally show ?thesis .
qed

text \<open>
  C3 asks that the generic pass skip every element without a public keyword, as the
  docstring of \<^verbatim>\<open>dictify\<close> says (private info is not collected). The loop has no such
  test: a private element, whose keyword is the empty string, is stored under the empty
  key. Here the private b-value at (0019,100C) is in the flattened header twice, under
  the empty key and under the key the private lookup adds.
\<close>

theorem dictify_keeps_private_element:
  "dictify [Plain (0x0008, 0x0060) ''CS'' ''Modality'' (PStr ''MR''),
            Plain (0x0019, 0x100C) ''IS'' [] (PInt 450)] =
     Inr [(''Modality'', PStr ''MR''), ([], PInt 450), (''DiffusionBValue'', PInt 450)]"
  by simp

section \<open>The layout classifier\<close>

lemma classify_tag: "classify ds = Inr (t, n) \<Longrightarrow> t = 1 \<or> t = 2"
  by (auto simp: classify_def and_then_eq_Inr split: if_splits option.splits)

text \<open>
  C5: the classifier gives (1, 1), the legacy layout with one image per file, for a
  dataset without the per-frame functional groups element, and (2, number of its items)
  when the dataset has that sequence element; the flattened header of a dataset has the
  per-frame key exactly when the dataset has the element. In a run that writes a table
  the first file in sorted order is classified, and every row is made from its own file
  and frame index under that one tag and that one image count.
\<close>

theorem classify_first_file:
  "(\<not> keyword_in ''PerFrameFunctionalGroupsSequence'' legacy_ds \<longrightarrow>
      classify legacy_ds = Inr (1, 1)) \<and>
   (find (\<lambda>e. keyword e = ''PerFrameFunctionalGroupsSequence'') modern_ds
        = Some (SeqElem t ''PerFrameFunctionalGroupsSequence'' items) \<longrightarrow>
      classify modern_ds = Inr (2, length items)) \<and>
   (dictify ds = Inr h \<longrightarrow>
      (map_of h ''PerFrameFunctionalGroupsSequence'' \<noteq> None) =
        keyword_in ''PerFrameFunctionalGroupsSequence'' ds) \<and>
   (get_data_from_dicoms_and_export repr listing = Inr table \<longrightarrow>
      (\<exists>first dicom_type n df.
         dcmread (hd (list_dicom_files listing)) = Inr first \<and>
         classify first = Inr (dicom_type, n) \<and>
         file_loop repr dicom_type n (list_dicom_files listing) [] = Inr df \<and>
         sort_values df = Inr table \<and>
         (\<forall>k < length df. \<exists>ds' h'.
            dcmread (list_dicom_files listing ! (k div n)) = Inr ds' \<and> dictify ds' = Inr h' \<and>
            make_row repr (base_name (list_dicom_files listing ! (k div n))) h' dicom_type
              (int (k mod n)) = Inr (df ! k))))"
proof (intro conjI impI)
  assume "\<not> keyword_in ''PerFrameFunctionalGroupsSequence'' legacy_ds"
  then show "classify legacy_ds = Inr (1, 1)"
    by (simp add: classify_def)
next
  assume found: "find (\<lambda>e. keyword e = ''PerFrameFunctionalGroupsSequence'') modern_ds
        = Some (SeqElem t ''PerFrameFunctionalGroupsSequence'' items)"
  then have "keyword_in ''PerFrameFunctionalGroupsSequence'' modern_ds"
    by (auto simp: keyword_in_def list_ex_iff find_Some_iff)
  with found show "classify modern_ds = Inr (2, length items)"
    by (simp add: classify_def)
next
  assume "dictify ds = Inr h"
  then show "(map_of h ''PerFrameFunctionalGroupsSequence'' \<noteq> None) =
        keyword_in ''PerFrameFunctionalGroupsSequence'' ds"
    by (rule header_has_per_frame_key)
next
  let ?files = "list_dicom_files listing"
  assume run: "get_data_from_dicoms_and_export repr listing = Inr table"
  from run_success [OF run] obtain first t' n df where
    first: "dcmread (hd ?files) = Inr first" and tag: "classify first = Inr (t', n)"
    and loop: "file_loop repr t' n ?files [] = Inr df" and sorted: "sort_values df = Inr table"
    by blast
  from file_loop_rows [OF loop] have "length df = length ?files * n"
    and "\<forall>k < length ?files * n. \<exists>ds' h'.
        dcmread (?files ! (k div n)) = Inr ds' \<and> dictify ds' = Inr h' \<and>
        make_row repr (base_name (?files ! (k div n))) h' t' (int (k mod n)) = Inr (df ! k)"
    by auto
  then have rows: "\<forall>k < length df. \<exists>ds' h'.
        dcmread (?files ! (k div n)) = Inr ds' \<and> dictify ds' = Inr h' \<and>
        make_row repr (base_name (?files ! (k div n))) h' t' (int (k mod n)) = Inr (df ! k)"
    by simp
  with first tag loop sorted
  show "\<exists>first dicom_type n df.
         dcmread (hd ?files) = Inr first \<and>
         classify first = Inr (dicom_type, n) \<and>
         file_loop repr dicom_type n ?files [] = Inr df \<and>
         sort_values df = Inr table \<and>
         (\<forall>k < length df. \<exists>ds' h'.
            dcmread (?files ! (k div n)) = Inr ds' \<and> dictify ds' = Inr h' \<and>
            make_row repr (base_name (?files ! (k div n))) h' dicom_type
              (int (k mod n)) = Inr (df ! k))"
    by blast
qed

theorem classify_first_file_witness:
  "\<not> keyword_in ''PerFrameFunctionalGroupsSequence'' (legacy_dataset ''143025'') \<and>
   classify (legacy_dataset ''143025'') = Inr (1, 1) \<and>
   find (\<lambda>e. keyword e = ''PerFrameFunctionalGroupsSequence'') modern_dataset
     = Some (SeqElem (0x5200, 0x9230) ''PerFrameFunctionalGroupsSequence''
         [modern_frame ''20230101143021'', modern_frame ''20230101143020'']) \<and>
   classify modern_dataset = Inr (2, 2) \<and>
   dictify modern_dataset = Inr modern_header \<and>
   map_of modern_header ''PerFrameFunctionalGroupsSequence'' \<noteq> None \<and>
   get_data_from_dicoms_and_export (\<lambda>v. []) legacy_listing =
     Inr [example_row ''IM0002.dcm'' ''143025'', example_row ''IM0001.dcm'' ''143030''] \<and>
   (\<exists>first dicom_type n df.
      dcmread (hd (list_dicom_files legacy_listing)) = Inr first \<and>
      classify first = Inr (dicom_type, n) \<and>
      file_loop (\<lambda>v. []) dicom_type n (list_dicom_files legacy_listing) [] = Inr df \<and>
      sort_values df =
        Inr [example_row ''IM0002.dcm'' ''143025'', example_row ''IM0001.dcm'' ''143030''] \<and>
      (\<forall>k < length df. \<exists>ds' h'.
         dcmread (list_dicom_files legacy_listing ! (k div n)) = Inr ds' \<and>
         dictify ds' = Inr h' \<and>
         make_row (\<lambda>v. []) (base_name (list_dicom_files legacy_listing ! (k div n))) h'
           dicom_type (int (k mod n)) = Inr (df ! k)))"
proof -
  have legacy: "\<not> keyword_in ''PerFrameFunctionalGroupsSequence'' (legacy_dataset ''143025'')"
    by (simp add: keyword_in_def legacy_dataset_def)
  have modern: "find (\<lambda>e. keyword e = ''PerFrameFunctionalGroupsSequence'') modern_dataset
     = Some (SeqElem (0x5200, 0x9230) ''PerFrameFunctionalGroupsSequence''
         [modern_frame ''20230101143021'', modern_frame ''20230101143020''])"
    by (simp add: modern_dataset_def)
  have header: "dictify modern_dataset = Inr modern_header"
    by (rule dictify_modern)
  have present: "keyword_in ''PerFrameFunctionalGroupsSequence'' modern_dataset"
    by (simp add: keyword_in_def modern_dataset_def)
  have run: "get_data_from_dicoms_and_export (\<lambda>v. []) legacy_listing =
     Inr [example_row ''IM0002.dcm'' ''143025'', example_row ''IM0001.dcm'' ''143030'']"
    by (rule run_legacy)
  note facts = classify_first_file [where legacy_ds = "legacy_dataset ''143025''"
      and modern_ds = modern_dataset and t = "(0x5200, 0x9230)"
      and items = "[modern_frame ''20230101143021'', modern_frame ''20230101143020'']"
      and ds = modern_dataset and h = modern_header and repr = "\<lambda>v. []"
      and listing = legacy_listing
      and table = "[example_row ''IM0002.dcm'' ''143025'', example_row ''IM0001.dcm'' ''143030'']"]
  from facts legacy have c1: "classify (legacy_dataset ''143025'') = Inr (1, 1)"
    by blast
  from facts modern have c2: "classify modern_dataset = Inr (2, 2)"
    by simp
  from facts header present
  have c3: "map_of modern_header ''PerFrameFunctionalGroupsSequence'' \<noteq> None"
    by blast
  from facts run have c4: "\<exists>first dicom_type n df.
      dcmread (hd (list_dicom_files legacy_listing)) = Inr first \<and>
      classify first = Inr (dicom_type, n) \<and>
      file_loop (\<lambda>v. []) dicom_type n (list_dicom_files legacy_listing) [] = Inr df \<and>
      sort_values df =
        Inr [example_row ''IM0002.dcm'' ''143025'', example_row ''IM0001.dcm'' ''143030''] \<and>
      (\<forall>k < length df. \<exists>ds' h'.
         dcmread (list_dicom_files legacy_listing ! (k div n)) = Inr ds' \<and>
         dictify ds' = Inr h' \<and>
         make_row (\<lambda>v. []) (base_name (list_dicom_files legacy_listing ! (k div n))) h'
           dicom_type (int (k mod n)) = Inr (df ! k))"
    by blast
  from legacy c1 modern c2 header c3 run c4 show ?thesis
    by (intro conjI) assumption+
qed

text \<open>
  C10: the tag that the classifier returns is 1 or 2. A run that writes a table has
  built every row with such a tag, so in no extractor call of the assembler does the
  \<^verbatim>\<open>if\<close>/\<^verbatim>\<open>elif\<close> chain fall through.
\<close>

theorem layout_tag_recognized:
  "(classify ds = Inr (dicom_type, n) \<longrightarrow> dicom_type = 1 \<or> dicom_type = 2) \<and>
   (get_data_from_dicoms_and_export repr listing = Inr table \<longrightarrow>
      (\<exists>t K df. (t = 1 \<or> t = 2) \<and>
         file_loop repr t K (list_dicom_files listing) [] = Inr df \<and>
         sort_values df = Inr table \<and>
         (\<forall>k < length df. \<exists>name h i. make_row repr name h t i = Inr (df ! k))))"
proof (intro conjI impI)
  assume "classify ds = Inr (dicom_type, n)"
  then show "dicom_type = 1 \<or> dicom_type = 2"
    by (rule classify_tag)
next
  let ?files = "list_dicom_files listing"
  assume run: "get_data_from_dicoms_and_export repr listing = Inr table"
  from run_success [OF run] obtain first t K df where
    tag: "classify first = Inr (t, K)" and loop: "file_loop repr t K ?files [] = Inr df"
    and sorted: "sort_values df = Inr table"
    by blast
  from file_loop_rows [OF loop] have "length df = length ?files * K"
    and "\<forall>k < length ?files * K. \<exists>ds' h.
        dcmread (?files ! (k div K)) = Inr ds' \<and> dictify ds' = Inr h \<and>
        make_row repr (base_name (?files ! (k div K))) h t (int (k mod K)) = Inr (df ! k)"
    by auto
  then have rows: "\<forall>k < length df. \<exists>name h i. make_row repr name h t i = Inr (df ! k)"
    by metis
  from classify_tag [OF tag] loop sorted rows
  show "\<exists>t K df. (t = 1 \<or> t = 2) \<and> file_loop repr t K ?files [] = Inr df \<and>
         sort_values df = Inr table \<and>
         (\<forall>k < length df. \<exists>name h i. make_row repr name h t i = Inr (df ! k))"
    by blast
qed

theorem layout_tag_recognized_witness:
  "classify modern_dataset = Inr (2, 2) \<and> ((2 :: int) = 1 \<or> (2 :: int) = 2) \<and>
   get_data_from_dicoms_and_export (\<lambda>v. []) legacy_listing =
     Inr [example_row ''IM0002.dcm'' ''143025'', example_row ''IM0001.dcm'' ''143030''] \<and>
   (\<exists>t K df. (t = 1 \<or> t = 2) \<and>
      file_loop (\<lambda>v. []) t K (list_dicom_files legacy_listing) [] = Inr df \<and>
      sort_values df =
        Inr [example_row ''IM0002.dcm'' ''143025'', example_row ''IM0001.dcm'' ''143030''] \<and>
      (\<forall>k < length df. \<exists>name h i. make_row (\<lambda>v. []) name h t i = Inr (df ! k)))"
proof -
  have tag: "classify modern_dataset = Inr (2, 2)"
    by (rule classify_modern)
  have run: "get_data_from_dicoms_and_export (\<lambda>v. []) legacy_listing =
     Inr [example_row ''IM0002.dcm'' ''143025'', example_row ''IM0001.dcm'' ''143030'']"
    by (rule run_legacy)
  note facts = layout_tag_recognized [where ds = modern_dataset and dicom_type = 2 and n = 2
      and repr = "\<lambda>v. []" and listing = legacy_listing
      and table = "[example_row ''IM0002.dcm'' ''143025'', example_row ''IM0001.dcm'' ''143030'']"]
  from facts tag have c1: "(2 :: int) = 1 \<or> (2 :: int) = 2"
    by blast
  from facts run have c2: "\<exists>t K df. (t = 1 \<or> t = 2) \<and>
      file_loop (\<lambda>v. []) t K (list_dicom_files legacy_listing) [] = Inr df \<and>
      sort_values df =
        Inr [example_row ''IM0002.dcm'' ''143025'', example_row ''IM0001.dcm'' ''143030''] \<and>
      (\<forall>k < length df. \<exists>name h i. make_row (\<lambda>v. []) name h t i = Inr (df ! k))"
    by blast
  from tag c1 run c2 show ?thesis
    by (intro conjI) assumption+
qed

section \<open>The number of rows\<close>

text \<open>
  C4: a run over \<open>N\<close> files, with the image count \<open>K\<close> taken from the first of them in
  sorted order, that writes a table gives \<open>N * K\<close> rows, assembled and exported: row
  \<open>k\<close> of the assembled table is the row of file \<open>k div K\<close> and frame \<open>k mod K\<close>.
\<close>

theorem table_row_count:
  assumes "get_data_from_dicoms_and_export repr listing = Inr table"
  shows "\<exists>ds dicom_type K df.
     dcmread (hd (list_dicom_files listing)) = Inr ds \<and>
     classify ds = Inr (dicom_type, K) \<and>
     file_loop repr dicom_type K (list_dicom_files listing) [] = Inr df \<and>
     sort_values df = Inr table \<and>
     length df = length (list_dicom_files listing) * K \<and>
     length table = length (list_dicom_files listing) * K \<and>
     (\<forall>k < length (list_dicom_files listing) * K. \<exists>ds' h.
        dcmread (list_dicom_files listing ! (k div K)) = Inr ds' \<and> dictify ds' = Inr h \<and>
        make_row repr (base_name (list_dicom_files listing ! (k div K))) h dicom_type
          (int (k mod K)) = Inr (df ! k))"
proof -
  let ?files = "list_dicom_files listing"
  from run_success [OF assms] obtain ds t K df where
    first: "dcmread (hd ?files) = Inr ds" and tag: "classify ds = Inr (t, K)"
    and loop: "file_loop repr t K ?files [] = Inr df" and sorted: "sort_values df = Inr table"
    by blast
  from file_loop_rows [OF loop] have len: "length df = length ?files * K"
    and rows: "\<forall>k < length ?files * K. \<exists>ds' h.
        dcmread (?files ! (k div K)) = Inr ds' \<and> dictify ds' = Inr h \<and>
        make_row repr (base_name (?files ! (k div K))) h t (int (k mod K)) = Inr (df ! k)"
    by auto
  from sort_values_Inr [OF sorted] have "length table = length df"
    by simp
  with first tag loop sorted len rows show ?thesis
    by (intro exI [of _ ds] exI [of _ t] exI [of _ K] exI [of _ df]) simp
qed

theorem table_row_count_witness:
  "get_data_from_dicoms_and_export (\<lambda>v. []) modern_listing =
     Inr [example_row ''MF0001.dcm'' ''143020'', example_row ''MF0001.dcm'' ''143021''] \<and>
   length (list_dicom_files modern_listing) = 1 \<and>
   (\<exists>ds dicom_type K df.
     dcmread (hd (list_dicom_files modern_listing)) = Inr ds \<and>
     classify ds = Inr (dicom_type, K) \<and>
     file_loop (\<lambda>v. []) dicom_type K (list_dicom_files modern_listing) [] = Inr df \<and>
     sort_values df =
       Inr [example_row ''MF0001.dcm'' ''143020'', example_row ''MF0001.dcm'' ''143021''] \<and>
     length df = length (list_dicom_files modern_listing) * K \<and>
     length [example_row ''MF0001.dcm'' ''143020'', example_row ''MF0001.dcm'' ''143021'']
       = length (list_dicom_files modern_listing) * K \<and>
     (\<forall>k < length (list_dicom_files modern_listing) * K. \<exists>ds' h.
        dcmread (list_dicom_files modern_listing ! (k div K)) = Inr ds' \<and> dictify ds' = Inr h \<and>
        make_row (\<lambda>v. []) (base_name (list_dicom_files modern_listing ! (k div K))) h dicom_type
          (int (k mod K)) = Inr (df ! k)))"
proof -
  have run: "get_data_from_dicoms_and_export (\<lambda>v. []) modern_listing =
     Inr [example_row ''MF0001.dcm'' ''143020'', example_row ''MF0001.dcm'' ''143021'']"
    by (rule run_modern)
  have one: "length (list_dicom_files modern_listing) = 1"
    by (simp add: modern_files)
  from run one table_row_count [OF run] show ?thesis
    by (intro conjI) assumption+
qed

end
